theory Spec2Isabelle
  imports Complex_Main
begin

section \<open>Strings, characters and exceptions\<close>

text \<open>
  Python strings are modelled as \<open>string\<close>; a \<open>char\<close> is read as a code point below 256.
  On that range the regular-expression class \<^verbatim>\<open>\d\<close> is the ten ASCII digits and
  \<^verbatim>\<open>str.strip()\<close> removes the code points 9-13, 28-32, 133 and 160.
\<close>

datatype exn = Exception string

fun str_exn :: "exn \<Rightarrow> string" where
  "str_exn (Exception m) = m"

definition is_digit :: "char \<Rightarrow> bool" where
  "is_digit c = (let n = (of_char c :: nat) in 48 \<le> n \<and> n \<le> 57)"

definition is_space :: "char \<Rightarrow> bool" where
  "is_space c = (let n = (of_char c :: nat) in
     (9 \<le> n \<and> n \<le> 13) \<or> (28 \<le> n \<and> n \<le> 32) \<or> n = 133 \<or> n = 160)"

text \<open>\<^verbatim>\<open>s.strip()\<close>\<close>

definition strip :: "string \<Rightarrow> string" where
  "strip s = rev (dropWhile is_space (rev (dropWhile is_space s)))"

text \<open>\<^verbatim>\<open>sep.join(parts)\<close>\<close>

fun join :: "string \<Rightarrow> string list \<Rightarrow> string" where
  "join sep [] = []"
| "join sep [x] = x"
| "join sep (x # y # ys) = x @ sep @ join sep (y # ys)"

text \<open>\<^verbatim>\<open>p in s\<close> on strings\<close>

fun contains :: "string \<Rightarrow> string \<Rightarrow> bool" where
  "contains p [] = (p = [])"
| "contains p (c # cs) = (take (length p) (c # cs) = p \<or> contains p cs)"

section \<open>Python floats\<close>

text \<open>
  A Python float is an IEEE 754 binary64 number. The program only produces floats that
  are not negative, so a float is modelled as a finite value, kept as the rational it
  stands for, or as \<^verbatim>\<open>inf\<close>. \<open>0 \<le> x\<close> on floats is Python's \<^verbatim>\<open>0.0 <= x\<close>.
\<close>

datatype pyfloat = Finite rat | Infinity

instantiation pyfloat :: "{zero, ord}"
begin

definition zero_pyfloat :: pyfloat where
  "zero_pyfloat = Finite 0"

fun less_eq_pyfloat :: "pyfloat \<Rightarrow> pyfloat \<Rightarrow> bool" where
  "less_eq_pyfloat (Finite a) (Finite b) = (a \<le> b)"
| "less_eq_pyfloat x Infinity = True"
| "less_eq_pyfloat Infinity (Finite b) = False"

definition less_pyfloat :: "pyfloat \<Rightarrow> pyfloat \<Rightarrow> bool" where
  "less_pyfloat x y = (x \<le> y \<and> \<not> y \<le> x)"

instance ..

end

text \<open>\<open>ilog2 n\<close> is the position of the leading bit of \<open>n\<close>, and \<open>flog2 x\<close> the binary
  exponent of a positive rational: the \<open>e\<close> with \<open>2^e \<le> x < 2^(e+1)\<close>.\<close>

fun ilog2 :: "nat \<Rightarrow> nat" where
  "ilog2 n = (if n < 2 then 0 else Suc (ilog2 (n div 2)))"

declare ilog2.simps [simp del]

definition flog2 :: "rat \<Rightarrow> int" where
  "flog2 x = (if 1 \<le> x then int (ilog2 (nat \<lfloor>x\<rfloor>))
              else - int (Suc (ilog2 (nat \<lceil>1 / x\<rceil> - 1))))"

definition pow2 :: "int \<Rightarrow> rat" where
  "pow2 k = (if 0 \<le> k then 2 ^ nat k else 1 / 2 ^ nat (- k))"

text \<open>Rounding to the nearest integer, a tie going to the even one.\<close>

definition round_half_even :: "rat \<Rightarrow> int" where
  "round_half_even y =
     (let f = \<lfloor>y\<rfloor>; d = y - of_int f in
      if d < 1 / 2 then f else if 1 / 2 < d then f + 1 else if even f then f else f + 1)"

text \<open>
  The double nearest to a rational that is not negative: 53 significant bits, the
  exponent not below that of the subnormal numbers, ties to even, and \<^verbatim>\<open>inf\<close> from
  \<open>2^1024 - 2^970\<close> on.
\<close>

definition round_double :: "rat \<Rightarrow> pyfloat" where
  "round_double x =
     (if x \<le> 0 then Finite 0
      else (let e = max (flog2 x) (- 1022);
                q = pow2 (e - 52);
                m = round_half_even (x / q)
            in if 1024 \<le> e \<or> (e = 1023 \<and> m = 2 ^ 53) then Infinity
               else Finite (of_int m * q)))"

text \<open>\<^verbatim>\<open>x + y\<close> on floats that are not negative\<close>

fun fadd :: "pyfloat \<Rightarrow> pyfloat \<Rightarrow> pyfloat" where
  "fadd (Finite a) (Finite b) = round_double (a + b)"
| "fadd x y = Infinity"

text \<open>
  \<^verbatim>\<open>sum(nums)\<close> on a list of floats: \<^verbatim>\<open>0 + x\<close> is \<open>x\<close>, and the other items are added
  from left to right, each sum rounded. (CPython 3.12 and later also carry a correction
  term through this loop; it is zero as long as every addition is exact.)
\<close>

fun py_sum :: "pyfloat list \<Rightarrow> pyfloat" where
  "py_sum [] = 0"
| "py_sum (x # xs) = foldl fadd x xs"

text \<open>
  \<^verbatim>\<open>x / n\<close> for a float \<open>x\<close> that is not negative and the length \<open>n\<close> of a list: the
  length is converted to a float first (a list has fewer than \<open>2^63\<close> items, so this
  never gives \<^verbatim>\<open>inf\<close>), and dividing by zero raises.
\<close>

definition fquot :: "pyfloat \<Rightarrow> nat \<Rightarrow> pyfloat" where
  "fquot x n =
     (case x of
        Infinity \<Rightarrow> Infinity
      | Finite a \<Rightarrow>
          (case round_double (of_nat n) of
             Infinity \<Rightarrow> Finite 0
           | Finite d \<Rightarrow> round_double (a / d)))"

definition fdiv :: "pyfloat \<Rightarrow> nat \<Rightarrow> exn + pyfloat" where
  "fdiv x n = (if n = 0 then Inl (Exception ''float division by zero'') else Inr (fquot x n))"

section \<open>Salary normalisation (\<^verbatim>\<open>clean_salary\<close> in app.py and train.py)\<close>

text \<open>
  One match attempt of \<^verbatim>\<open>\d+(?:,\d+)?\<close> at the start of a string: the greedy digit run,
  then at most one group of a comma and a further digit run. The result is the matched
  text and the remaining input.
\<close>

definition match_salary :: "string \<Rightarrow> (string \<times> string) option" where
  "match_salary s =
     (let d1 = takeWhile is_digit s; r1 = dropWhile is_digit s in
      if d1 = [] then None
      else (case r1 of
              [] \<Rightarrow> Some (d1, [])
            | k # r2 \<Rightarrow>
                if k = CHR '','' \<and> takeWhile is_digit r2 \<noteq> []
                then Some (d1 @ k # takeWhile is_digit r2, dropWhile is_digit r2)
                else Some (d1, r1)))"

text \<open>\<^verbatim>\<open>re.findall(r"\d+(?:,\d+)?", s)\<close>: leftmost non-overlapping matches, scanning on
  after each match and one character on where none starts.\<close>

function findall_salary :: "string \<Rightarrow> string list" where
  "findall_salary [] = []"
| "findall_salary (c # cs) =
     (case match_salary (c # cs) of
        None \<Rightarrow> findall_salary cs
      | Some (m, rest) \<Rightarrow> m # findall_salary rest)"
  by pat_completeness auto
termination
proof (relation "measure length", goal_cases)
  case 1
  show ?case by simp
next
  case (2 c cs)
  show ?case by simp
next
  case (3 c cs p m rest)
  let ?s = "c # cs"
  have a: "match_salary ?s = Some (m, rest)" using 3 by simp
  have l1: "length (dropWhile is_digit ?s) < length ?s"
    using a by (auto simp: match_salary_def le_imp_less_Suc length_dropWhile_le
        split: if_splits)
  have "length rest < length ?s"
  proof (cases "dropWhile is_digit ?s")
    case Nil
    with a show ?thesis by (auto simp: match_salary_def Let_def split: if_splits)
  next
    case (Cons k r2)
    have l2: "length (dropWhile is_digit r2) \<le> length r2" by (rule length_dropWhile_le)
    have l3: "Suc (length r2) < length ?s" using l1 Cons by simp
    have "rest = dropWhile is_digit r2 \<or> rest = k # r2"
      using a Cons by (auto simp: match_salary_def Let_def split: if_splits)
    with l2 l3 show ?thesis by auto
  qed
  thus ?case by simp
qed

text \<open>\<^verbatim>\<open>x.replace(",", "")\<close>\<close>

definition strip_commas :: "string \<Rightarrow> string" where
  "strip_commas x = filter (\<lambda>c. c \<noteq> CHR '','') x"

definition digit_val :: "char \<Rightarrow> nat" where
  "digit_val c = of_char c - 48"

definition digits_val :: "string \<Rightarrow> nat" where
  "digits_val s = foldl (\<lambda>acc c. 10 * acc + digit_val c) 0 s"

text \<open>
  \<^verbatim>\<open>float(x)\<close> on the arguments this program passes: a non-empty string of decimal
  digits gives the double nearest to its value (\<^verbatim>\<open>inf\<close> when that is too large); every
  other argument is taken to raise \<^verbatim>\<open>ValueError\<close>.
\<close>

definition py_float :: "string \<Rightarrow> exn + pyfloat" where
  "py_float x =
     (if x \<noteq> [] \<and> list_all is_digit x then Inr (round_double (of_nat (digits_val x)))
      else Inl (Exception ''could not convert string to float''))"

text \<open>A list comprehension whose element expression may raise.\<close>

fun comprehend :: "('a \<Rightarrow> exn + 'b) \<Rightarrow> 'a list \<Rightarrow> exn + 'b list" where
  "comprehend f [] = Inr []"
| "comprehend f (x # xs) =
     (case f x of
        Inl e \<Rightarrow> Inl e
      | Inr v \<Rightarrow> (case comprehend f xs of Inl e \<Rightarrow> Inl e | Inr vs \<Rightarrow> Inr (v # vs)))"

text \<open>
  The argument of \<^verbatim>\<open>clean_salary\<close>: \<open>None\<close> is a value that \<^verbatim>\<open>pd.isna\<close> accepts (None or
  NaN), and \<open>Some s\<close> any other object, given by the string \<^verbatim>\<open>str()\<close> makes of it.
\<close>

definition isna :: "string option \<Rightarrow> bool" where
  "isna s = (s = None)"

fun str :: "string option \<Rightarrow> string" where
  "str None = ''None''"
| "str (Some s) = s"

definition salary_nums :: "string \<Rightarrow> exn + pyfloat list" where
  "salary_nums s = comprehend (\<lambda>x. py_float (strip_commas x)) (findall_salary s)"

text \<open>app.py, \<^verbatim>\<open>clean_salary\<close>\<close>

definition clean_salary :: "string option \<Rightarrow> exn + pyfloat" where
  "clean_salary s =
     (if isna s \<or> strip (str s) = [] then Inr 0
      else (case salary_nums (str s) of
              Inl e \<Rightarrow> Inl e
            | Inr nums \<Rightarrow>
                if length nums = 0 then Inr 0
                else if length nums = 1 then Inr (nums ! 0)
                else fdiv (py_sum nums) (length nums)))"

text \<open>train.py, \<^verbatim>\<open>clean_salary\<close>\<close>

definition clean_salary_train :: "string option \<Rightarrow> exn + pyfloat" where
  "clean_salary_train s =
     (if isna s \<or> strip (str s) = [] then Inr 0
      else (case salary_nums (str s) of
              Inl e \<Rightarrow> Inl e
            | Inr nums \<Rightarrow>
                if nums = [] then Inr 0
                else fdiv (py_sum nums) (length nums)))"

text \<open>
  The numbers a salary string holds: the value of each match with its commas removed,
  as a natural number and as the float \<^verbatim>\<open>float()\<close> makes of it.
\<close>

definition found_values :: "string \<Rightarrow> nat list" where
  "found_values s = map (\<lambda>m. digits_val (strip_commas m)) (findall_salary s)"

definition found_numbers :: "string \<Rightarrow> pyfloat list" where
  "found_numbers s = map (\<lambda>n. round_double (of_nat n)) (found_values s)"

section \<open>Training features (train.py, \<^verbatim>\<open>load_data\<close>)\<close>

text \<open>
  A cell of the frame that \<^verbatim>\<open>pd.read_csv\<close> returns: missing, a string, or a number. A
  number is given by what the program does with it: the string \<^verbatim>\<open>str()\<close> makes of it
  and the integer \<^verbatim>\<open>int()\<close> makes of it.
\<close>

datatype cell = NaN | Str string | Num string int

record job_row =
  col_job_title :: cell
  col_salary_range :: cell
  col_company_profile :: cell
  col_requirements :: cell
  col_fraudulent :: cell

record dataframe =
  df_columns :: "string list"
  df_rows :: "job_row list"

text \<open>One row of \<^verbatim>\<open>X\<close>: the columns \<^verbatim>\<open>text\<close> and \<^verbatim>\<open>salary_range\<close>.\<close>

record features =
  text_col :: string
  salary_col :: pyfloat

text \<open>\<^verbatim>\<open>df.fillna("")\<close> on one cell\<close>

definition fillna :: "cell \<Rightarrow> cell" where
  "fillna c = (case c of NaN \<Rightarrow> Str [] | _ \<Rightarrow> c)"

text \<open>A cell as the argument of \<^verbatim>\<open>clean_salary\<close>, and under \<^verbatim>\<open>astype(str)\<close>.\<close>

definition cell_arg :: "cell \<Rightarrow> string option" where
  "cell_arg c = (case c of NaN \<Rightarrow> None | Str s \<Rightarrow> Some s | Num r i \<Rightarrow> Some r)"

definition astype_str :: "cell \<Rightarrow> string" where
  "astype_str c = (case c of NaN \<Rightarrow> ''nan'' | Str s \<Rightarrow> s | Num r i \<Rightarrow> r)"

text \<open>
  \<^verbatim>\<open>int(x)\<close> on a string: white space around an optional sign and a non-empty run of
  digits; every other string is taken to raise \<^verbatim>\<open>ValueError\<close>.
\<close>

definition py_int :: "string \<Rightarrow> exn + int" where
  "py_int x =
     (let t = strip x;
          neg = (t \<noteq> [] \<and> hd t = CHR ''-'');
          d = (if t \<noteq> [] \<and> (hd t = CHR ''-'' \<or> hd t = CHR ''+'') then tl t else t)
      in if d \<noteq> [] \<and> list_all is_digit d
         then Inr (if neg then - int (digits_val d) else int (digits_val d))
         else Inl (Exception ''invalid literal for int() with base 10''))"

text \<open>\<^verbatim>\<open>astype(int)\<close> on one cell of the label column\<close>

definition astype_int :: "cell \<Rightarrow> exn + int" where
  "astype_int c =
     (case c of
        NaN \<Rightarrow> Inl (Exception ''cannot convert float NaN to integer'')
      | Str s \<Rightarrow> py_int s
      | Num r i \<Rightarrow> Inr i)"

text \<open>The new column \<^verbatim>\<open>df["text"]\<close> on one row (lines 49-53).\<close>

definition row_text :: "job_row \<Rightarrow> string" where
  "row_text r =
     astype_str (fillna (col_job_title r)) @ '' '' @
     astype_str (fillna (col_company_profile r)) @ '' '' @
     astype_str (fillna (col_requirements r))"

text \<open>What lines 47-56 make of one row: its features and its label.\<close>

definition load_data_row :: "job_row \<Rightarrow> exn + (features \<times> int)" where
  "load_data_row r =
     (case clean_salary_train (cell_arg (fillna (col_salary_range r))) of
        Inl e \<Rightarrow> Inl e
      | Inr v \<Rightarrow>
          (case astype_int (fillna (col_fraudulent r)) of
             Inl e \<Rightarrow> Inl e
           | Inr y \<Rightarrow> Inr (\<lparr>text_col = row_text r, salary_col = v\<rparr>, y)))"

definition expected_cols :: "string list" where
  "expected_cols =
     [''job_title'', ''salary_range'', ''company_profile'', ''requirements'', ''fraudulent'']"

definition load_data :: "dataframe \<Rightarrow> exn + (features \<times> int) list" where
  "load_data df =
     (if list_all (\<lambda>c. c \<in> set (df_columns df)) expected_cols
      then comprehend load_data_row (df_rows df)
      else Inl (Exception ''Dataset must have columns''))"

section \<open>The prediction route (app.py)\<close>

text \<open>
  A deserialised object: whether Python takes it as true, and what
  \<^verbatim>\<open>int(obj.predict(df)[0])\<close> gives on a one-row frame with the given text and salary.
\<close>

record artifact =
  truthy :: bool
  run_predict :: "string \<Rightarrow> pyfloat \<Rightarrow> exn + int"

datatype stored_file = Absent | Corrupt exn | Stored artifact

datatype path = VecPath | ModelPath

text \<open>What a request cannot change: the two files and whether the database commit fails.\<close>

record env =
  vec_file :: stored_file
  model_file :: stored_file
  commit_error :: "exn option"

text \<open>\<^verbatim>\<open>app.ml\<close>\<close>

record ml_cache =
  pipeline :: "artifact option"
  model :: "artifact option"
  vectorizer :: "artifact option"

record prediction_history =
  ph_text :: string
  ph_prediction :: string
  ph_user_id :: nat

datatype log = LoadedInfo | LoadFailedWarning exn | PredictionFailedError exn

text \<open>
  The state a request acts on: the cache, the stored history, and the record of calls to
  \<^verbatim>\<open>joblib.load\<close> and to the model's \<^verbatim>\<open>predict\<close>, and of the log.
\<close>

record world =
  app_ml :: ml_cache
  history :: "prediction_history list"
  joblib_loads :: "path list"
  model_calls :: "(string \<times> pyfloat) list"
  logs :: "log list"

definition path_exists :: "stored_file \<Rightarrow> bool" where
  "path_exists f = (f \<noteq> Absent)"

definition joblib_load :: "stored_file \<Rightarrow> exn + artifact" where
  "joblib_load f =
     (case f of
        Absent \<Rightarrow> Inl (Exception ''No such file or directory'')
      | Corrupt e \<Rightarrow> Inl e
      | Stored a \<Rightarrow> Inr a)"

definition is_true :: "artifact option \<Rightarrow> bool" where
  "is_true x = (case x of None \<Rightarrow> False | Some a \<Rightarrow> truthy a)"

text \<open>The second statement of the \<^verbatim>\<open>try\<close> block of \<^verbatim>\<open>load_ml\<close> and the log call after it.\<close>

definition load_ml_model :: "env \<Rightarrow> world \<Rightarrow> world" where
  "load_ml_model ev w =
     (if path_exists (model_file ev) then
        (case joblib_load (model_file ev) of
           Inl e \<Rightarrow> w\<lparr>joblib_loads := joblib_loads w @ [ModelPath],
                      logs := logs w @ [LoadFailedWarning e]\<rparr>
         | Inr a \<Rightarrow> w\<lparr>app_ml := (app_ml w)\<lparr>model := Some a\<rparr>,
                      joblib_loads := joblib_loads w @ [ModelPath],
                      logs := logs w @ [LoadedInfo]\<rparr>)
      else w\<lparr>logs := logs w @ [LoadedInfo]\<rparr>)"

definition load_ml :: "env \<Rightarrow> world \<Rightarrow> world" where
  "load_ml ev w =
     (if is_true (model (app_ml w)) \<and> is_true (vectorizer (app_ml w)) then w
      else if path_exists (vec_file ev) then
        (case joblib_load (vec_file ev) of
           Inl e \<Rightarrow> w\<lparr>joblib_loads := joblib_loads w @ [VecPath],
                      logs := logs w @ [LoadFailedWarning e]\<rparr>
         | Inr a \<Rightarrow> load_ml_model ev
                      (w\<lparr>app_ml := (app_ml w)\<lparr>vectorizer := Some a\<rparr>,
                         joblib_loads := joblib_loads w @ [VecPath]\<rparr>))
      else load_ml_model ev w)"

text \<open>\<^verbatim>\<open>request.form\<close>, the \<^verbatim>\<open>X-Requested-With\<close> test and \<^verbatim>\<open>current_user.id\<close>\<close>

record request =
  form :: "string \<rightharpoonup> string"
  xhr :: bool
  user_id :: nat

definition form_get :: "(string \<rightharpoonup> string) \<Rightarrow> string \<Rightarrow> string \<Rightarrow> string" where
  "form_get f k d = (case f k of None \<Rightarrow> d | Some v \<Rightarrow> v)"

datatype icon = CheckMark | WarningSign

text \<open>A flashed message: plain text, or the prediction message with its leading sign.\<close>

datatype message = Plain string | PredictionMessage icon string

text \<open>
  \<open>JsonError m c\<close> is \<^verbatim>\<open>jsonify({"error": m}), c\<close>; \<open>JsonPrediction l\<close> is
  \<^verbatim>\<open>jsonify({"prediction": l})\<close>; \<open>FlashRedirect m c\<close> is \<^verbatim>\<open>flash(m, c)\<close> followed by the
  redirect to the dashboard.
\<close>

datatype response =
    JsonError string nat
  | JsonPrediction string
  | FlashRedirect message string

definition label_of :: "int \<Rightarrow> string" where
  "label_of pred = (if pred = 1 then ''Fake Job Posting'' else ''Real Job Posting'')"

text \<open>The four kinds of answer \<^verbatim>\<open>predict\<close> gives (lines 234-237, 243-247, 261-266, 269-273).\<close>

definition input_empty :: "request \<Rightarrow> response" where
  "input_empty rq =
     (if xhr rq then JsonError ''Please provide job details.'' 400
      else FlashRedirect (Plain ''Please fill all fields before predicting.'') ''warning'')"

definition model_missing :: "request \<Rightarrow> response" where
  "model_missing rq =
     (let msg = ''Model files missing. Please run train.py first.'' in
      if xhr rq then JsonError msg 500 else FlashRedirect (Plain msg) ''danger'')"

definition prediction_made :: "request \<Rightarrow> string \<Rightarrow> response" where
  "prediction_made rq label =
     (if xhr rq then JsonPrediction label
      else FlashRedirect
             (if contains ''Real'' label then PredictionMessage CheckMark label
              else PredictionMessage WarningSign label)
             (if contains ''Real'' label then ''success'' else ''danger''))"

definition prediction_failed :: "request \<Rightarrow> exn \<Rightarrow> response" where
  "prediction_failed rq e =
     (if xhr rq then JsonError (str_exn e) 500
      else FlashRedirect (Plain (''Prediction failed: '' @ str_exn e)) ''danger'')"

text \<open>\<^verbatim>\<open>db.session.add(rec); db.session.commit()\<close>\<close>

definition add_commit :: "env \<Rightarrow> prediction_history \<Rightarrow> world \<Rightarrow> (exn + unit) \<times> world" where
  "add_commit ev rec w =
     (case commit_error ev of
        Some e \<Rightarrow> (Inl e, w)
      | None \<Rightarrow> (Inr (), w\<lparr>history := history w @ [rec]\<rparr>))"

text \<open>The body of the \<^verbatim>\<open>try\<close> block of \<^verbatim>\<open>predict\<close>: what it returns or raises, and the
  state it leaves.\<close>

definition predict_try ::
  "env \<Rightarrow> request \<Rightarrow> string \<Rightarrow> string \<Rightarrow> world \<Rightarrow> (exn + response) \<times> world" where
  "predict_try ev rq text salary_range_raw w =
     (case (vectorizer (app_ml w), model (app_ml w)) of
        (Some vec, Some mdl) \<Rightarrow>
          (case clean_salary (Some salary_range_raw) of
             Inl e \<Rightarrow> (Inl e, w)
           | Inr salary_numeric \<Rightarrow>
               (let w1 = w\<lparr>model_calls := model_calls w @ [(text, salary_numeric)]\<rparr> in
                case run_predict mdl text salary_numeric of
                  Inl e \<Rightarrow> (Inl e, w1)
                | Inr pred \<Rightarrow>
                    (let label = label_of pred;
                         rec = \<lparr>ph_text = text, ph_prediction = label,
                                ph_user_id = user_id rq\<rparr>
                     in case add_commit ev rec w1 of
                          (Inl e, w2) \<Rightarrow> (Inl e, w2)
                        | (Inr u, w2) \<Rightarrow> (Inr (prediction_made rq label), w2))))
      | _ \<Rightarrow> (Inr (model_missing rq), w))"

text \<open>\<^verbatim>\<open>request.form.get(k, "").strip()\<close>\<close>

definition field :: "request \<Rightarrow> string \<Rightarrow> string" where
  "field rq k = strip (form_get (form rq) k [])"

text \<open>The text \<^verbatim>\<open>predict\<close> works on, from the five form fields (lines 224-231).\<close>

definition request_text :: "request \<Rightarrow> string" where
  "request_text rq =
     (let text = field rq ''text'';
          job_title = field rq ''job_title'';
          salary_range_raw = field rq ''salary_range'';
          company_profile = field rq ''company_profile'';
          requirements = field rq ''requirements''
      in if text = [] \<and> (job_title \<noteq> [] \<or> salary_range_raw \<noteq> [] \<or>
                          company_profile \<noteq> [] \<or> requirements \<noteq> [])
         then strip (join '' '' [job_title, salary_range_raw, company_profile, requirements])
         else text)"

definition predict :: "env \<Rightarrow> request \<Rightarrow> world \<Rightarrow> response \<times> world" where
  "predict ev rq w =
     (let text = request_text rq;
          salary_range_raw = field rq ''salary_range''
      in if text = [] then (input_empty rq, w)
         else
           (case predict_try ev rq text salary_range_raw (load_ml ev w) of
              (Inr resp, w') \<Rightarrow> (resp, w')
            | (Inl e, w') \<Rightarrow>
                (prediction_failed rq e, w'\<lparr>logs := logs w' @ [PredictionFailedError e]\<rparr>)))"

text \<open>\<^verbatim>\<open>create_app\<close>: the cache starts empty.\<close>

definition initial_ml :: ml_cache where
  "initial_ml = \<lparr>pipeline = None, model = None, vectorizer = None\<rparr>"

text \<open>A form field is blank when nothing is left of it after \<^verbatim>\<open>strip()\<close>.\<close>

definition blank :: "request \<Rightarrow> string \<Rightarrow> bool" where
  "blank rq k = (field rq k = [])"

definition all_blank :: "request \<Rightarrow> bool" where
  "all_blank rq =
     (blank rq ''text'' \<and> blank rq ''job_title'' \<and> blank rq ''salary_range'' \<and>
      blank rq ''company_profile'' \<and> blank rq ''requirements'')"

section \<open>Concrete inputs\<close>

text \<open>The state after \<^verbatim>\<open>create_app\<close>, with no prediction stored.\<close>

definition world0 :: world where
  "world0 = \<lparr>app_ml = initial_ml, history = [], joblib_loads = [], model_calls = [], logs = []\<rparr>"

text \<open>An object that is true in Python and whose \<^verbatim>\<open>predict\<close> answers \<open>r\<close> on every input.\<close>

definition answering :: "exn + int \<Rightarrow> artifact" where
  "answering r = \<lparr>truthy = True, run_predict = (\<lambda>t s. r)\<rparr>"

definition files :: "stored_file \<Rightarrow> stored_file \<Rightarrow> env" where
  "files v m = \<lparr>vec_file = v, model_file = m, commit_error = None\<rparr>"

definition posted :: "(string \<times> string) list \<Rightarrow> bool \<Rightarrow> request" where
  "posted kvs x = \<lparr>form = map_of kvs, xhr = x, user_id = 1\<rparr>"

text \<open>A file that \<^verbatim>\<open>joblib.load\<close> reads without an error.\<close>

definition is_stored :: "stored_file \<Rightarrow> bool" where
  "is_stored f = (case f of Stored a \<Rightarrow> True | _ \<Rightarrow> False)"

section \<open>Properties of the float operations\<close>

lemma ilog2_le: "1 \<le> n \<Longrightarrow> 2 ^ ilog2 n \<le> n"
proof (induction n rule: ilog2.induct)
  case (1 n)
  show ?case
  proof (cases "n < 2")
    case True
    with 1(2) show ?thesis by (simp add: ilog2.simps)
  next
    case False
    hence "1 \<le> n div 2" by simp
    with 1(1)[OF False] have "2 ^ ilog2 (n div 2) \<le> n div 2" by simp
    hence "2 * 2 ^ ilog2 (n div 2) \<le> n" by simp
    with False show ?thesis by (simp add: ilog2.simps[of n])
  qed
qed

lemma round_half_even_of_int: "round_half_even (of_int k) = k"
  by (simp add: round_half_even_def)

lemma round_half_even_nonneg: "0 \<le> y \<Longrightarrow> 0 \<le> round_half_even y"
  by (auto simp: round_half_even_def Let_def)

lemma pow2_pos: "0 < pow2 k"
  by (simp add: pow2_def)

lemma round_double_nonneg: "0 \<le> round_double x"
proof (cases "x \<le> 0")
  case True
  thus ?thesis by (simp add: round_double_def zero_pyfloat_def)
next
  case False
  let ?q = "pow2 (max (flog2 x) (- 1022) - 52)"
  have "0 \<le> x / ?q" using False pow2_pos[of "max (flog2 x) (- 1022) - 52"] by simp
  hence "0 \<le> round_half_even (x / ?q)" by (rule round_half_even_nonneg)
  hence "0 \<le> rat_of_int (round_half_even (x / ?q)) * ?q"
    using pow2_pos[of "max (flog2 x) (- 1022) - 52"] by simp
  thus ?thesis using False by (simp add: round_double_def zero_pyfloat_def Let_def)
qed

lemma fquot_nonneg: "0 \<le> fquot x n"
proof (cases x)
  case Infinity
  thus ?thesis by (simp add: fquot_def zero_pyfloat_def)
next
  case (Finite a)
  show ?thesis
  proof (cases "round_double (of_nat n)")
    case Infinity
    thus ?thesis using Finite by (simp add: fquot_def zero_pyfloat_def)
  next
    case (Finite d)
    thus ?thesis using \<open>x = Finite a\<close> round_double_nonneg[of "a / d"] by (simp add: fquot_def)
  qed
qed

text \<open>Natural numbers up to \<open>2^53\<close> are doubles.\<close>

lemma round_double_of_nat_exact:
  assumes "n \<le> 2 ^ 53"
  shows "round_double (of_nat n) = Finite (of_nat n)"
proof (cases "n = 0")
  case True
  thus ?thesis by (simp add: round_double_def)
next
  case False
  hence n1: "1 \<le> n" by simp
  let ?e = "ilog2 n"
  have fl: "flog2 (of_nat n) = int ?e" using n1 by (simp add: flog2_def)
  have lo: "2 ^ ?e \<le> n" by (rule ilog2_le[OF n1])
  have p: "(2::nat) ^ ?e \<le> 2 ^ 53" using lo assms by (rule order_trans)
  have e53: "?e \<le> 53" by (rule power_le_imp_le_exp[OF _ p]) simp
  have mx: "max (int ?e) (- 1022) = int ?e" by simp
  show ?thesis
  proof (cases "?e \<le> 52")
    case True
    have q: "pow2 (int ?e - 52) = 1 / 2 ^ (52 - ?e)"
    proof (cases "?e = 52")
      case True
      thus ?thesis by (simp add: pow2_def)
    next
      case False
      with True have "?e < 52" by simp
      hence "nat (52 - int ?e) = 52 - ?e" by simp
      thus ?thesis using \<open>?e < 52\<close> by (simp add: pow2_def)
    qed
    have d: "rat_of_nat n / (1 / 2 ^ (52 - ?e)) = of_int (int n * 2 ^ (52 - ?e))" by simp
    have r: "round_half_even (rat_of_nat n / (1 / 2 ^ (52 - ?e))) = int n * 2 ^ (52 - ?e)"
      unfolding d by (rule round_half_even_of_int)
    show ?thesis using n1 True
      by (simp add: round_double_def fl mx q r Let_def del: divide_divide_eq_right)
  next
    case False
    with e53 have e: "?e = 53" by simp
    with lo assms have n: "n = 2 ^ 53" by simp
    have "round_double 9007199254740992 = Finite 9007199254740992"
      by (simp add: round_double_def flog2_def pow2_def round_half_even_def ilog2.simps Let_def)
    thus ?thesis by (simp add: n)
  qed
qed

lemma round_double_numeral:
  "numeral k \<le> (9007199254740992::nat) \<Longrightarrow> round_double (numeral k) = Finite (numeral k)"
  using round_double_of_nat_exact[of "numeral k"] by simp

lemma round_double_0: "round_double 0 = Finite 0"
  by (simp add: round_double_def)

lemma round_double_1: "round_double 1 = Finite 1"
  using round_double_of_nat_exact[of 1] by simp

lemma floor_divide_numeral: "\<lfloor>(numeral a :: rat) / numeral b\<rfloor> = numeral a div numeral b"
  using floor_divide_of_int_eq[of "numeral a" "numeral b", where ?'a = rat] by simp

lemma ceiling_divide_numeral:
  "\<lceil>(numeral a :: rat) / numeral b\<rceil> = - ((- numeral a) div numeral b)"
  using floor_divide_of_int_eq[of "- numeral a" "numeral b", where ?'a = rat]
  by (simp add: ceiling_def)

lemmas float_eval =
  round_double_def flog2_def pow2_def round_half_even_def ilog2.simps Let_def
  floor_divide_numeral ceiling_divide_numeral

text \<open>Where rounding shows: \<^verbatim>\<open>float("9007199254740993")\<close> is \<^verbatim>\<open>9007199254740992.0\<close>, and
  \<^verbatim>\<open>2036 / 3\<close> is \<^verbatim>\<open>678.6666666666666\<close>.\<close>

lemma round_double_above_2_53: "round_double 9007199254740993 = Finite 9007199254740992"
  by (simp add: float_eval)


lemma ilog2_lt: "n < 2 ^ Suc (ilog2 n)"
proof (induction n rule: ilog2.induct)
  case (1 n)
  show ?case
  proof (cases "n < 2")
    case True
    thus ?thesis by (simp add: ilog2.simps)
  next
    case False
    from 1[OF False] have "n div 2 < 2 ^ Suc (ilog2 (n div 2))" .
    hence "n < 2 * 2 ^ Suc (ilog2 (n div 2))" by simp
    with False show ?thesis by (simp add: ilog2.simps[of n])
  qed
qed

lemma ilog2_unique:
  assumes "2 ^ k \<le> n" "n < 2 ^ Suc k"
  shows "ilog2 n = k"
proof -
  have n1: "1 \<le> n" using assms(1) by (meson one_le_numeral one_le_power order_trans)
  have "(2::nat) ^ k < 2 ^ Suc (ilog2 n)" using assms(1) ilog2_lt[of n] by (rule le_less_trans)
  hence a: "k < Suc (ilog2 n)" by (simp only: power_strict_increasing_iff[of 2] one_less_numeral_iff semiring_norm)
  have "(2::nat) ^ ilog2 n < 2 ^ Suc k" using ilog2_le[OF n1] assms(2) by (rule le_less_trans)
  hence b: "ilog2 n < Suc k" by (simp only: power_strict_increasing_iff[of 2] one_less_numeral_iff semiring_norm)
  from a b show ?thesis by simp
qed

lemma pow2_powi: "pow2 k = 2 powi k"
  by (simp add: pow2_def power_int_def power_one_over inverse_eq_divide)

lemma pow2_add: "pow2 (a + b) = pow2 a * pow2 b"
  by (simp add: pow2_powi power_int_add)

lemma pow2_nat: "pow2 (int k) = 2 ^ k"
  by (simp add: pow2_def)

lemma round_half_even_ge: "of_int a \<le> y \<Longrightarrow> a \<le> round_half_even y"
proof -
  assume "of_int a \<le> y"
  hence "a \<le> \<lfloor>y\<rfloor>" by (simp add: le_floor_iff)
  thus ?thesis by (auto simp: round_half_even_def Let_def)
qed

lemma round_half_even_le: "y \<le> of_int b \<Longrightarrow> round_half_even y \<le> b"
proof -
  assume a: "y \<le> of_int b"
  have fb: "\<lfloor>y\<rfloor> \<le> b" using floor_mono[OF a] by simp
  show ?thesis
  proof (cases "\<lfloor>y\<rfloor> = b")
    case True
    hence "y = of_int b" using a by (metis antisym of_int_floor_le)
    thus ?thesis by (simp add: round_half_even_of_int)
  next
    case False
    with fb have "\<lfloor>y\<rfloor> + 1 \<le> b" by simp
    thus ?thesis using fb by (auto simp: round_half_even_def Let_def)
  qed
qed

text \<open>A float obtained from a natural number is not changed by rounding it again.\<close>

lemma round_double_idem:
  assumes "round_double (of_nat n) = Finite r"
  shows "round_double r = Finite r"
proof (cases "n = 0")
  case True
  with assms have "r = 0" by (simp add: round_double_def)
  thus ?thesis by (simp add: round_double_def)
next
  case False
  hence n1: "1 \<le> n" by simp
  define e where "e = ilog2 n"
  define q where "q = pow2 (int e - 52)"
  define m where "m = round_half_even (of_nat n / q)"
  have fl: "flog2 (of_nat n) = int e" using n1 by (simp add: flog2_def e_def)
  have nz: "\<not> rat_of_nat n \<le> 0" using n1 by simp
  have mx: "max (int e) (- 1022) = int e" by simp
  have rd: "round_double (of_nat n) =
     (if 1024 \<le> int e \<or> (int e = 1023 \<and> m = 2 ^ 53) then Infinity else Finite (of_int m * q))"
    unfolding round_double_def Let_def fl mx q_def[symmetric] m_def[symmetric]
    using nz by simp
  from assms rd have nov: "\<not> (1024 \<le> int e \<or> (int e = 1023 \<and> m = 2 ^ 53))"
    and r: "r = of_int m * q"
    by (auto split: if_splits)
  have qpos: "0 < q" by (simp add: q_def pow2_pos)
  have q52: "q * 2 ^ 52 = 2 ^ e"
  proof -
    have "pow2 (int e - 52) * pow2 52 = pow2 (int e)" by (simp add: pow2_add[symmetric])
    thus ?thesis by (simp add: q_def pow2_nat) (simp add: pow2_def)
  qed
  have lo: "2 ^ e \<le> n" unfolding e_def by (rule ilog2_le[OF n1])
  have hi: "n < 2 ^ Suc e" unfolding e_def by (rule ilog2_lt)
  have nlo: "of_int (2 ^ 52) \<le> rat_of_nat n / q"
  proof -
    have "(2::rat) ^ e \<le> of_nat n" using lo by (metis of_nat_le_iff of_nat_numeral of_nat_power)
    hence "q * 2 ^ 52 \<le> of_nat n" using q52 by simp
    thus ?thesis using qpos by (simp add: pos_le_divide_eq mult.commute)
  qed
  have nhi: "rat_of_nat n / q \<le> of_int (2 ^ 53)"
  proof -
    have "of_nat n \<le> (2::rat) ^ Suc e"
      using hi by (metis less_imp_le of_nat_le_iff of_nat_numeral of_nat_power)
    hence "of_nat n \<le> q * 2 ^ 53" using q52 by simp
    thus ?thesis using qpos by (simp add: pos_divide_le_eq mult.commute)
  qed
  have mlo: "2 ^ 52 \<le> m" unfolding m_def by (rule round_half_even_ge[OF nlo])
  have mhi: "m \<le> 2 ^ 53" unfolding m_def by (rule round_half_even_le[OF nhi])
  have rq: "r / q = of_int m" using qpos by (simp add: r)
  show ?thesis
  proof (cases "m = 2 ^ 53")
    case False
    with mhi have m53: "m < 2 ^ 53" by simp
    have rlo: "2 ^ e \<le> r"
    proof -
      have "q * 2 ^ 52 \<le> q * of_int m" using mlo qpos by simp
      thus ?thesis using q52 by (simp add: r mult.commute)
    qed
    have rhi: "r < 2 ^ Suc e"
    proof -
      have "of_int m * q < 2 ^ 53 * q" using m53 qpos by simp
      also have "\<dots> = 2 * (q * 2 ^ 52)" by simp
      finally show ?thesis using q52 by (simp add: r)
    qed
    have r1: "1 \<le> r" using rlo by (meson one_le_numeral one_le_power order_trans)
    have fr: "nat \<lfloor>r\<rfloor> = nat \<lfloor>r\<rfloor>" by simp
    have f1: "2 ^ e \<le> nat \<lfloor>r\<rfloor>"
    proof -
      have "(2::int) ^ e \<le> \<lfloor>r\<rfloor>" using rlo by (simp add: le_floor_iff)
      thus ?thesis by (simp add: le_nat_iff)
    qed
    have f2: "nat \<lfloor>r\<rfloor> < 2 ^ Suc e"
    proof -
      have "\<lfloor>r\<rfloor> < (2::int) ^ Suc e" using rhi by (simp add: floor_less_iff)
      thus ?thesis using r1 by (simp add: nat_less_iff)
    qed
    have flr: "flog2 r = int e" using r1 ilog2_unique[OF f1 f2] by (simp add: flog2_def)
    have nzr: "\<not> r \<le> 0" using r1 by simp
    have "round_double r =
       (if 1024 \<le> int e \<or> (int e = 1023 \<and> round_half_even (r / q) = 2 ^ 53) then Infinity
        else Finite (of_int (round_half_even (r / q)) * q))"
      unfolding round_double_def Let_def flr mx q_def[symmetric] using nzr by simp
    thus ?thesis using nov by (simp add: rq round_half_even_of_int r[symmetric])
  next
    case True
    have r2: "r = 2 ^ Suc e"
    proof -
      have "r = 2 * (q * 2 ^ 52)" by (simp add: r True)
      thus ?thesis using q52 by simp
    qed
    have r1: "1 \<le> r" unfolding r2 by (meson one_le_numeral one_le_power)
    have fr: "nat \<lfloor>r\<rfloor> = 2 ^ Suc e"
    proof -
      have "r = of_int (int (2 ^ Suc e))" by (simp add: r2)
      hence "\<lfloor>r\<rfloor> = int (2 ^ Suc e)" by (metis floor_of_int)
      thus ?thesis by (simp only: nat_int)
    qed
    have "ilog2 (2 ^ Suc e) = Suc e" by (rule ilog2_unique) simp_all
    hence flr: "flog2 r = int (Suc e)" using r1 by (simp add: flog2_def fr)
    have q': "pow2 (int (Suc e) - 52) = 2 * q"
    proof -
      have "pow2 ((int e - 52) + 1) = pow2 (int e - 52) * pow2 1" by (rule pow2_add)
      thus ?thesis by (simp add: q_def pow2_def add.commute)
    qed
    have d: "r / (2 * q) = of_int (2 ^ 52)" using qpos by (simp add: r True)
    have rh: "round_half_even (r / (2 * q)) = 2 ^ 52" unfolding d by (rule round_half_even_of_int)
    from nov True have e22: "int e \<le> 1022" by simp
    have nzr: "\<not> r \<le> 0" using r1 by simp
    have mx': "max (int (Suc e)) (- 1022) = int (Suc e)" by simp
    have "round_double r =
       (if 1024 \<le> int (Suc e) \<or> (int (Suc e) = 1023 \<and> round_half_even (r / (2 * q)) = 2 ^ 53)
        then Infinity else Finite (of_int (round_half_even (r / (2 * q))) * (2 * q)))"
      unfolding round_double_def Let_def flr mx' q' using nzr by simp
    thus ?thesis using e22 by (simp add: rh) (simp add: r True)
  qed
qed

lemma ilog2_ge: "2 ^ k \<le> n \<Longrightarrow> k \<le> ilog2 n"
proof -
  assume a: "2 ^ k \<le> n"
  have "(2::nat) ^ k < 2 ^ Suc (ilog2 n)" using a ilog2_lt[of n] by (rule le_less_trans)
  hence "k < Suc (ilog2 n)"
    by (simp only: power_strict_increasing_iff[of 2] one_less_numeral_iff semiring_norm)
  thus ?thesis by simp
qed

text \<open>From \<open>2^1024\<close> on, rounding gives \<^verbatim>\<open>inf\<close>.\<close>

lemma round_double_overflow:
  assumes "2 ^ 1024 \<le> x"
  shows "round_double x = Infinity"
proof -
  have x1: "1 \<le> x" using assms by (meson one_le_numeral one_le_power order_trans)
  have "(2::int) ^ 1024 \<le> \<lfloor>x\<rfloor>" using assms by (simp add: le_floor_iff)
  hence "int (2 ^ 1024) \<le> \<lfloor>x\<rfloor>" by simp
  hence "2 ^ 1024 \<le> nat \<lfloor>x\<rfloor>" by (simp only: le_nat_iff[OF zero_le_floor[THEN iffD2, OF order_trans[OF zero_le_one x1]]] nat_int) 
  hence "1024 \<le> ilog2 (nat \<lfloor>x\<rfloor>)" by (rule ilog2_ge)
  hence "1024 \<le> flog2 x" using x1 by (simp add: flog2_def)
  thus ?thesis using x1 by (simp add: round_double_def Let_def)
qed

text \<open>Dividing a float obtained from a natural number by 1 gives it back.\<close>

lemma fquot_one: "fquot (round_double (of_nat n)) 1 = round_double (of_nat n)"
proof (cases "round_double (of_nat n)")
  case Infinity
  thus ?thesis by (simp add: fquot_def)
next
  case (Finite r)
  thus ?thesis using round_double_idem[OF Finite] by (simp add: fquot_def round_double_1)
qed




section \<open>Properties of salary normalisation\<close>

lemma strip_empty_iff: "strip s = [] \<longleftrightarrow> list_all is_space s"
proof
  assume a: "strip s = []"
  hence b: "\<forall>x\<in>set (dropWhile is_space s). is_space x"
    by (simp add: strip_def dropWhile_eq_Nil_conv)
  have "dropWhile is_space s = []"
  proof (cases "dropWhile is_space s")
    case Nil then show ?thesis .
  next
    case (Cons y ys)
    hence "\<not> is_space y" using hd_dropWhile[of is_space s] by auto
    moreover have "is_space y" using b Cons by simp
    ultimately show ?thesis by simp
  qed
  thus "list_all is_space s" by (simp add: dropWhile_eq_Nil_conv list_all_iff)
next
  assume "list_all is_space s"
  thus "strip s = []" by (auto simp: strip_def list_all_iff dest: set_dropWhileD)
qed

lemma space_not_digit: "is_space c \<Longrightarrow> \<not> is_digit c"
  by (auto simp: is_space_def is_digit_def Let_def)

lemma findall_no_digit: "\<forall>c\<in>set s. \<not> is_digit c \<Longrightarrow> findall_salary s = []"
  by (induction s) (auto simp: match_salary_def)

lemma match_salary_digits:
  assumes "match_salary s = Some (m, rest)"
  shows "strip_commas m \<noteq> [] \<and> list_all is_digit (strip_commas m)"
proof -
  have dc: "\<And>xs. list_all is_digit xs \<Longrightarrow> strip_commas xs = xs"
    by (auto simp: strip_commas_def list_all_iff is_digit_def intro!: filter_True)
  have tw: "\<And>xs. list_all is_digit (takeWhile is_digit xs)"
    by (auto simp: list_all_iff dest: set_takeWhileD)
  have ne: "takeWhile is_digit s \<noteq> []"
    using assms by (auto simp: match_salary_def Let_def split: if_splits)
  have "m = takeWhile is_digit s \<or>
        (\<exists>r2. m = takeWhile is_digit s @ CHR '','' # takeWhile is_digit r2)"
    using assms by (auto simp: match_salary_def Let_def split: if_splits list.splits)
  thus ?thesis
  proof
    assume "m = takeWhile is_digit s"
    thus ?thesis using ne dc[OF tw] tw by simp
  next
    assume "\<exists>r2. m = takeWhile is_digit s @ CHR '','' # takeWhile is_digit r2"
    then obtain r2 where m: "m = takeWhile is_digit s @ CHR '','' # takeWhile is_digit r2" by blast
    have "strip_commas m = takeWhile is_digit s @ takeWhile is_digit r2"
      using dc[OF tw, of s] dc[OF tw, of r2] by (simp add: m strip_commas_def)
    thus ?thesis using ne tw by simp
  qed
qed

lemma findall_salary_digits:
  "\<forall>m\<in>set (findall_salary s). strip_commas m \<noteq> [] \<and> list_all is_digit (strip_commas m)"
proof (induction s rule: findall_salary.induct)
  case 1
  show ?case by simp
next
  case (2 c cs)
  show ?case
  proof (cases "match_salary (c # cs)")
    case None
    with 2 show ?thesis by simp
  next
    case (Some p)
    obtain m rest where p: "p = (m, rest)" by (cases p)
    from 2(2)[OF Some[unfolded p] refl] match_salary_digits[OF Some[unfolded p]]
    show ?thesis using Some p by simp
  qed
qed

lemma comprehend_all_ok:
  "\<forall>x\<in>set xs. f x = Inr (g x) \<Longrightarrow> comprehend f xs = Inr (map g xs)"
  by (induction xs) auto

lemma salary_nums_ok: "salary_nums s = Inr (found_numbers s)"
proof -
  have "comprehend (\<lambda>x. py_float (strip_commas x)) (findall_salary s) =
          Inr (map (\<lambda>m. round_double (of_nat (digits_val (strip_commas m)))) (findall_salary s))"
    by (rule comprehend_all_ok) (use findall_salary_digits[of s] in \<open>auto simp: py_float_def\<close>)
  thus ?thesis by (simp add: salary_nums_def found_numbers_def found_values_def comp_def)
qed

lemma found_numbers_nonneg: "\<forall>x\<in>set (found_numbers s). 0 \<le> x"
  by (auto simp: found_numbers_def round_double_nonneg)

lemma found_numbers_blank: "strip s = [] \<Longrightarrow> found_numbers s = []"
  by (auto simp: found_numbers_def found_values_def strip_empty_iff list_all_iff
      intro!: findall_no_digit dest: space_not_digit)

lemma clean_salary_Some:
  "clean_salary (Some s) =
     Inr (case found_numbers s of [] \<Rightarrow> 0 | [x] \<Rightarrow> x
          | x # y # zs \<Rightarrow> fquot (py_sum (found_numbers s)) (length (found_numbers s)))"
proof (cases "strip s = []")
  case True
  thus ?thesis by (simp add: clean_salary_def found_numbers_blank)
next
  case False
  show ?thesis
  proof (cases "found_numbers s")
    case Nil
    thus ?thesis using False by (simp add: clean_salary_def isna_def salary_nums_ok)
  next
    case (Cons x xs)
    thus ?thesis using False
      by (cases xs) (simp_all add: clean_salary_def isna_def salary_nums_ok fdiv_def)
  qed
qed

lemma clean_salary_train_eq: "clean_salary_train s = clean_salary s"
proof (cases s)
  case None
  thus ?thesis by (simp add: clean_salary_def clean_salary_train_def isna_def)
next
  case (Some t)
  show ?thesis
  proof (cases "strip t = []")
    case True
    thus ?thesis by (simp add: Some clean_salary_def clean_salary_train_def)
  next
    case False
    show ?thesis
    proof (cases "found_values t")
      case Nil
      thus ?thesis using False
        by (simp add: Some clean_salary_def clean_salary_train_def isna_def salary_nums_ok
            found_numbers_def)
    next
      case (Cons v vs)
      show ?thesis
      proof (cases vs)
        case Nil
        thus ?thesis using False Cons fquot_one[of v]
          by (simp add: Some clean_salary_def clean_salary_train_def isna_def salary_nums_ok
              found_numbers_def fdiv_def)
      next
        case (Cons w ws)
        thus ?thesis using False \<open>found_values t = v # vs\<close>
          by (simp add: Some clean_salary_def clean_salary_train_def isna_def salary_nums_ok
              found_numbers_def fdiv_def)
      qed
    qed
  qed
qed

lemma zero_le_zero_pyfloat: "(0::pyfloat) \<le> 0"
  by (simp add: zero_pyfloat_def)

lemma clean_salary_nonneg: "\<exists>v. clean_salary s = Inr v \<and> 0 \<le> v"
proof (cases s)
  case None
  thus ?thesis by (simp add: clean_salary_def isna_def zero_le_zero_pyfloat)
next
  case (Some t)
  have nn: "\<forall>x\<in>set (found_numbers t). 0 \<le> x" by (rule found_numbers_nonneg)
  show ?thesis
  proof (cases "found_numbers t")
    case Nil
    thus ?thesis by (simp add: Some clean_salary_Some zero_le_zero_pyfloat)
  next
    case (Cons x xs)
    have "0 \<le> x" using nn Cons by simp
    thus ?thesis by (cases xs) (simp_all add: Some clean_salary_Some Cons fquot_nonneg)
  qed
qed

lemma clean_salary_train_nonneg: "\<exists>v. clean_salary_train s = Inr v \<and> 0 \<le> v"
  by (simp only: clean_salary_train_eq clean_salary_nonneg)


lemmas salary_eval =
  clean_salary_def clean_salary_train_def salary_nums_def match_salary_def is_digit_def
  is_space_def strip_def isna_def py_float_def strip_commas_def digits_val_def digit_val_def
  found_values_def found_numbers_def fdiv_def fquot_def zero_pyfloat_def
  round_double_numeral round_double_0 round_double_1

text \<open>
  C3. The pattern admits only one comma group after the first digit run. On
  \<^verbatim>\<open>"1,000,000"\<close> it therefore finds the two matches \<^verbatim>\<open>"1,000"\<close> and \<^verbatim>\<open>"000"\<close>, and both
  versions of \<^verbatim>\<open>clean_salary\<close> return their mean 500 instead of the single number 1000000.
\<close>

theorem clean_salary_splits_second_comma_group:
  "findall_salary ''1,000,000'' = [''1,000'', ''000''] \<and>
   clean_salary (Some ''1,000,000'') = Inr (Finite 500) \<and>
   clean_salary_train (Some ''1,000,000'') = Inr (Finite 500)"
  by (simp add: salary_eval)



text \<open>
  C5. \<^verbatim>\<open>clean_salary\<close> never raises: for every argument, missing or a string, both
  versions return a number that is at least 0; the result is 0 for a missing argument, for
  the empty string, for a string of white space only and for a string without a digit.
\<close>

theorem clean_salary_total:
  "(\<exists>v. clean_salary a = Inr v \<and> 0 \<le> v) \<and>
   (\<exists>v. clean_salary_train a = Inr v \<and> 0 \<le> v) \<and>
   clean_salary None = Inr 0 \<and>
   clean_salary (Some []) = Inr 0 \<and>
   (strip w = [] \<longrightarrow> clean_salary (Some w) = Inr 0) \<and>
   (\<not> list_ex is_digit t \<longrightarrow> clean_salary (Some t) = Inr 0)"
proof -
  have c1: "\<exists>v. clean_salary a = Inr v \<and> 0 \<le> v" by (rule clean_salary_nonneg)
  have c2: "\<exists>v. clean_salary_train a = Inr v \<and> 0 \<le> v" by (rule clean_salary_train_nonneg)
  have c3: "clean_salary None = Inr 0" by (simp add: clean_salary_def isna_def)
  have c4: "clean_salary (Some []) = Inr 0" by (simp add: clean_salary_def strip_def)
  have c5: "strip w = [] \<longrightarrow> clean_salary (Some w) = Inr 0" by (simp add: clean_salary_def)
  have c6: "\<not> list_ex is_digit t \<longrightarrow> clean_salary (Some t) = Inr 0"
  proof
    assume "\<not> list_ex is_digit t"
    hence "findall_salary t = []" by (intro findall_no_digit) (simp add: list_ex_iff)
    thus "clean_salary (Some t) = Inr 0"
      by (simp add: clean_salary_Some found_numbers_def found_values_def)
  qed
  from c1 c2 c3 c4 c5 c6 show ?thesis by blast
qed

theorem clean_salary_total_witness:
  "strip ''   '' = [] \<and> clean_salary (Some ''   '') = Inr 0 \<and>
   \<not> list_ex is_digit ''not a number'' \<and> clean_salary (Some ''not a number'') = Inr 0 \<and>
   (\<exists>v. clean_salary (Some ''$50,000'') = Inr v \<and> 0 \<le> v)"
proof -
  have h1: "strip ''   '' = []" by (simp add: strip_def is_space_def)
  have h2: "\<not> list_ex is_digit ''not a number''" by (simp add: is_digit_def)
  show ?thesis
    using clean_salary_total [of "Some ''$50,000''" "''   ''" "''not a number''"] h1 h2
    by blast
qed

section \<open>Properties of \<^verbatim>\<open>load_data\<close>\<close>

text \<open>A frame without one of the expected columns, and a row without a label, raise;
  a salary cell that \<^verbatim>\<open>read_csv\<close> parsed as the number 50000.0 is read through its string.\<close>

lemma load_data_missing_column:
  "load_data \<lparr>df_columns = [''job_title'', ''salary_range'', ''company_profile'',
                             ''requirements''], df_rows = rs\<rparr> =
     Inl (Exception ''Dataset must have columns'')"
  by (simp add: load_data_def expected_cols_def)

lemma load_data_missing_label:
  "load_data \<lparr>df_columns = expected_cols,
              df_rows = [\<lparr>col_job_title = Str ''Dev'', col_salary_range = Str ''5'',
                          col_company_profile = NaN, col_requirements = NaN,
                          col_fraudulent = NaN\<rparr>]\<rparr> =
     Inl (Exception ''invalid literal for int() with base 10'')"
  by (simp add: salary_eval load_data_def load_data_row_def row_text_def fillna_def
      cell_arg_def astype_str_def astype_int_def py_int_def expected_cols_def)

lemma numeric_salary_cell:
  "clean_salary_train (cell_arg (fillna (Num ''50000.0'' 50000))) = Inr (Finite 25000)"
  by (simp add: salary_eval fillna_def cell_arg_def)

section \<open>Properties of the prediction route\<close>

lemma strip_not_all_space: "strip s \<noteq> [] \<Longrightarrow> \<not> list_all is_space (strip s)"
proof -
  let ?r = "dropWhile is_space (rev (dropWhile is_space s))"
  assume "strip s \<noteq> []"
  hence ne: "?r \<noteq> []" by (simp add: strip_def)
  hence "\<not> is_space (hd ?r)" by (rule hd_dropWhile)
  moreover have "hd ?r \<in> set (strip s)" using ne unfolding strip_def set_rev by (rule hd_in_set)
  ultimately show ?thesis by (auto simp: list_all_iff)
qed

lemma join4: "join sep [a, b, c, d] = a @ sep @ b @ sep @ c @ sep @ d"
  by simp

lemma folded_text_nonempty:
  assumes "strip a \<noteq> [] \<or> strip b \<noteq> [] \<or> strip c \<noteq> [] \<or> strip d \<noteq> []"
  shows "strip (join '' '' [strip a, strip b, strip c, strip d]) \<noteq> []"
proof -
  have "\<not> (list_all is_space (strip a) \<and> list_all is_space (strip b) \<and>
            list_all is_space (strip c) \<and> list_all is_space (strip d))"
    using assms strip_not_all_space by blast
  hence "\<not> list_all is_space (join '' '' [strip a, strip b, strip c, strip d])"
    unfolding join4 by simp
  thus ?thesis by (simp only: strip_empty_iff not_False_eq_True)
qed

lemma request_text_empty_iff: "request_text rq = [] \<longleftrightarrow> all_blank rq"
proof -
  let ?g = "\<lambda>k. form_get (form rq) k []"
  note defs = request_text_def all_blank_def blank_def field_def Let_def
  show ?thesis
  proof (cases "strip (?g ''text'') = []")
    case False
    thus ?thesis by (simp add: defs)
  next
    case t: True
    show ?thesis
    proof (cases "strip (?g ''job_title'') \<noteq> [] \<or> strip (?g ''salary_range'') \<noteq> [] \<or>
                  strip (?g ''company_profile'') \<noteq> [] \<or> strip (?g ''requirements'') \<noteq> []")
      case True
      from folded_text_nonempty[OF True] True t show ?thesis
        by (auto simp: defs)
    next
      case False
      with t show ?thesis
        by (auto simp: defs)
    qed
  qed
qed

lemma input_empty_distinct:
  "model_missing rq \<noteq> input_empty rq" "prediction_failed rq e \<noteq> input_empty rq"
  "prediction_made rq l \<noteq> input_empty rq"
  by (auto simp: model_missing_def input_empty_def prediction_failed_def prediction_made_def Let_def)

lemma predict_try_cases:
  "fst (predict_try ev rq t sr w) = Inr (model_missing rq) \<or>
   (\<exists>l. fst (predict_try ev rq t sr w) = Inr (prediction_made rq l)) \<or>
   (\<exists>e. fst (predict_try ev rq t sr w) = Inl e)"
  by (auto simp: predict_try_def add_commit_def Let_def split: option.splits sum.splits prod.splits)

lemma predict_nonblank_not_input_empty:
  assumes "request_text rq \<noteq> []"
  shows "fst (predict ev rq w) \<noteq> input_empty rq"
proof -
  let ?r = "predict_try ev rq (request_text rq) (field rq ''salary_range'') (load_ml ev w)"
  have p: "predict ev rq w = (case ?r of (Inr resp, w') \<Rightarrow> (resp, w')
            | (Inl e, w') \<Rightarrow> (prediction_failed rq e, w'\<lparr>logs := logs w' @ [PredictionFailedError e]\<rparr>))"
    using assms by (simp add: predict_def Let_def)
  from predict_try_cases[of ev rq "request_text rq" "field rq ''salary_range''" "load_ml ev w"]
  show ?thesis
    by (cases ?r) (auto simp: p input_empty_distinct input_empty_distinct[symmetric] split: sum.splits)
qed

lemmas frame_eval =
  load_data_def load_data_row_def row_text_def fillna_def cell_arg_def astype_str_def
  astype_int_def py_int_def expected_cols_def

lemmas route_eval =
  predict_def predict_try_def request_text_def load_ml_def load_ml_model_def add_commit_def
  joblib_load_def path_exists_def is_true_def form_get_def label_of_def
  input_empty_def model_missing_def prediction_made_def prediction_failed_def
  world0_def initial_ml_def answering_def files_def posted_def all_blank_def blank_def
  field_def

text \<open>
  C7. \<^verbatim>\<open>predict\<close> answers with the empty-input validation error exactly when the
  free-text field and the four discrete form fields (job_title, salary_range,
  company_profile, requirements) are all blank; in that case nothing else happens: the
  state is unchanged, so the model is not invoked and nothing is loaded or stored.
\<close>

theorem predict_input_empty_iff:
  "(fst (predict ev rq w) = input_empty rq \<longleftrightarrow> all_blank rq) \<and>
   (all_blank rq \<longrightarrow> predict ev rq w = (input_empty rq, w) \<and>
      model_calls (snd (predict ev rq w)) = model_calls w)"
proof (cases "request_text rq = []")
  case True
  thus ?thesis by (simp add: predict_def request_text_empty_iff[symmetric])
next
  case False
  from predict_nonblank_not_input_empty[OF False] False show ?thesis
    by (simp add: request_text_empty_iff[symmetric])
qed

theorem predict_input_empty_iff_witness:
  "all_blank (posted [(''text'', ''  ''), (''job_title'', [])] True) \<and>
   predict (files Absent Absent) (posted [(''text'', ''  ''), (''job_title'', [])] True) world0 =
     (JsonError ''Please provide job details.'' 400, world0) \<and>
   \<not> all_blank (posted [(''salary_range'', '' 5 '')] True) \<and>
   fst (predict (files Absent Absent) (posted [(''salary_range'', '' 5 '')] True) world0) \<noteq>
     input_empty (posted [(''salary_range'', '' 5 '')] True)"
proof -
  have b1: "all_blank (posted [(''text'', ''  ''), (''job_title'', [])] True)"
    by (simp add: all_blank_def blank_def field_def posted_def form_get_def strip_def
        is_space_def)
  have b2: "\<not> all_blank (posted [(''salary_range'', '' 5 '')] True)"
    by (simp add: all_blank_def blank_def field_def posted_def form_get_def strip_def
        is_space_def)
  have i: "input_empty (posted [(''text'', ''  ''), (''job_title'', [])] True) =
           JsonError ''Please provide job details.'' 400"
    by (simp add: input_empty_def posted_def)
  show ?thesis
    using predict_input_empty_iff
            [of "files Absent Absent" "posted [(''text'', ''  ''), (''job_title'', [])] True" world0]
          predict_input_empty_iff
            [of "files Absent Absent" "posted [(''salary_range'', '' 5 '')] True" world0]
          b1 b2
    by (simp add: i)
qed

lemma load_ml_model_keeps: "history (load_ml_model ev w) = history w"
  "model_calls (load_ml_model ev w) = model_calls w"
  by (simp_all add: load_ml_model_def split: sum.splits)

lemma load_ml_keeps: "history (load_ml ev w) = history w"
  "model_calls (load_ml ev w) = model_calls w"
  by (simp_all add: load_ml_def load_ml_model_keeps split: sum.splits)

lemma predict_nonblank:
  "request_text rq \<noteq> [] \<Longrightarrow>
   predict ev rq w =
     (case predict_try ev rq (request_text rq) (field rq ''salary_range'') (load_ml ev w) of
        (Inr resp, w') \<Rightarrow> (resp, w')
      | (Inl e, w') \<Rightarrow>
          (prediction_failed rq e, w'\<lparr>logs := logs w' @ [PredictionFailedError e]\<rparr>))"
  by (simp add: predict_def Let_def)

lemma predict_try_run:
  assumes "vectorizer (app_ml w) = Some vec" "model (app_ml w) = Some mdl"
    and "clean_salary (Some sr) = Inr sal"
  shows "predict_try ev rq t sr w =
     (let w1 = w\<lparr>model_calls := model_calls w @ [(t, sal)]\<rparr> in
      case run_predict mdl t sal of
        Inl e \<Rightarrow> (Inl e, w1)
      | Inr pred \<Rightarrow>
          (case commit_error ev of
             Some e \<Rightarrow> (Inl e, w1)
           | None \<Rightarrow>
               (Inr (prediction_made rq (label_of pred)),
                w1\<lparr>history := history w1 @
                   [\<lparr>ph_text = t, ph_prediction = label_of pred, ph_user_id = user_id rq\<rparr>]\<rparr>)))"
  using assms
  by (simp add: predict_try_def add_commit_def Let_def split: option.splits sum.splits)

lemma predict_try_label:
  "fst (predict_try ev rq t sr w) = Inr r \<Longrightarrow>
   r = model_missing rq \<or> (\<exists>p. r = prediction_made rq (label_of p))"
  by (auto simp: predict_try_def add_commit_def Let_def
      split: option.splits sum.splits prod.splits)

lemma predict_response_kinds:
  "fst (predict ev rq w) = input_empty rq \<or> fst (predict ev rq w) = model_missing rq \<or>
   (\<exists>e. fst (predict ev rq w) = prediction_failed rq e) \<or>
   (\<exists>p. fst (predict ev rq w) = prediction_made rq (label_of p))"
proof (cases "request_text rq = []")
  case True
  thus ?thesis by (simp add: predict_def)
next
  case False
  let ?r = "predict_try ev rq (request_text rq) (field rq ''salary_range'') (load_ml ev w)"
  show ?thesis
  proof (cases "fst ?r")
    case (Inl e)
    hence "fst (predict ev rq w) = prediction_failed rq e"
      by (cases ?r) (simp add: predict_nonblank[OF False])
    thus ?thesis by blast
  next
    case (Inr r)
    hence "fst (predict ev rq w) = r"
      by (cases ?r) (simp add: predict_nonblank[OF False])
    with predict_try_label[OF Inr] show ?thesis by blast
  qed
qed

lemma label_of_two: "label_of p = ''Fake Job Posting'' \<or> label_of p = ''Real Job Posting''"
  by (simp add: label_of_def)

lemma predict_try_missing:
  "vectorizer (app_ml w) = None \<or> model (app_ml w) = None \<Longrightarrow>
   predict_try ev rq t sr w = (Inr (model_missing rq), w)"
  by (auto simp: predict_try_def split: option.splits)

lemma load_ml_uncached:
  "vectorizer (app_ml w) = None \<or> model (app_ml w) = None \<Longrightarrow>
   load_ml ev w =
     (if path_exists (vec_file ev) then
        (case joblib_load (vec_file ev) of
           Inl e \<Rightarrow> w\<lparr>joblib_loads := joblib_loads w @ [VecPath],
                      logs := logs w @ [LoadFailedWarning e]\<rparr>
         | Inr a \<Rightarrow> load_ml_model ev
                      (w\<lparr>app_ml := (app_ml w)\<lparr>vectorizer := Some a\<rparr>,
                         joblib_loads := joblib_loads w @ [VecPath]\<rparr>))
      else load_ml_model ev w)"
  by (auto simp: load_ml_def is_true_def)

lemma load_ml_keeps_vectorizer:
  "\<not> is_stored (vec_file ev) \<Longrightarrow>
   vectorizer (app_ml (load_ml ev w)) = vectorizer (app_ml w)"
  by (cases "vec_file ev"; cases "model_file ev")
     (simp_all add: load_ml_def load_ml_model_def path_exists_def joblib_load_def is_stored_def)

lemma load_ml_keeps_model:
  "\<not> is_stored (model_file ev) \<Longrightarrow> model (app_ml (load_ml ev w)) = model (app_ml w)"
  by (cases "vec_file ev"; cases "model_file ev")
     (simp_all add: load_ml_def load_ml_model_def path_exists_def joblib_load_def is_stored_def)

lemma failed_load_slot:
  assumes "(vectorizer (app_ml w) = None \<and> \<not> is_stored (vec_file ev)) \<or>
           (model (app_ml w) = None \<and> \<not> is_stored (model_file ev))"
  shows "vectorizer (app_ml (load_ml ev w)) = None \<or> model (app_ml (load_ml ev w)) = None"
  using assms load_ml_keeps_vectorizer[of ev w] load_ml_keeps_model[of ev w] by auto

lemma load_ml_retry:
  assumes "vectorizer (app_ml w) = None \<or> model (app_ml w) = None"
    and "vec_file ev = Stored v" "model_file ev = Stored m"
  shows "load_ml ev w =
     w\<lparr>app_ml := (app_ml w)\<lparr>vectorizer := Some v, model := Some m\<rparr>,
       joblib_loads := joblib_loads w @ [VecPath, ModelPath],
       logs := logs w @ [LoadedInfo]\<rparr>"
  by (simp add: load_ml_uncached[OF assms(1)] load_ml_model_def path_exists_def
      joblib_load_def assms(2,3))

text \<open>
  C8. The classifier's output 1 becomes the label \<^verbatim>\<open>"Fake Job Posting"\<close> and 0 the label
  \<^verbatim>\<open>"Real Job Posting"\<close>; whatever \<^verbatim>\<open>predict\<close> answers, a label it carries is one of these
  two strings; and when the model answers \<open>p\<close> and the commit succeeds, the answer and the
  stored record carry the label of \<open>p\<close>.
\<close>

theorem predict_label_mapping:
  "label_of 1 = ''Fake Job Posting'' \<and> label_of 0 = ''Real Job Posting'' \<and>
   (fst (predict ev rq w) = JsonPrediction l \<longrightarrow>
      l = ''Fake Job Posting'' \<or> l = ''Real Job Posting'') \<and>
   (fst (predict ev rq w) = FlashRedirect (PredictionMessage i l) c \<longrightarrow>
      l = ''Fake Job Posting'' \<or> l = ''Real Job Posting'') \<and>
   (request_text rq \<noteq> [] \<and>
    vectorizer (app_ml (load_ml ev w)) = Some vec \<and> model (app_ml (load_ml ev w)) = Some mdl \<and>
    clean_salary (Some (field rq ''salary_range'')) = Inr sal \<and>
    run_predict mdl (request_text rq) sal = Inr p \<and> commit_error ev = None \<longrightarrow>
      fst (predict ev rq w) = prediction_made rq (label_of p) \<and>
      history (snd (predict ev rq w)) =
        history w @ [\<lparr>ph_text = request_text rq, ph_prediction = label_of p,
                       ph_user_id = user_id rq\<rparr>])"
proof -
  have a: "label_of 1 = ''Fake Job Posting'' \<and> label_of 0 = ''Real Job Posting''"
    by (simp add: label_of_def)
  have b: "fst (predict ev rq w) = JsonPrediction l \<longrightarrow>
      l = ''Fake Job Posting'' \<or> l = ''Real Job Posting''"
  proof
    assume h: "fst (predict ev rq w) = JsonPrediction l"
    from predict_response_kinds[of ev rq w] h obtain p where "l = label_of p"
      by (auto simp: input_empty_def model_missing_def prediction_failed_def
          prediction_made_def Let_def split: if_splits)
    thus "l = ''Fake Job Posting'' \<or> l = ''Real Job Posting''"
      using label_of_two[of p] by simp
  qed
  have c: "fst (predict ev rq w) = FlashRedirect (PredictionMessage i l) c \<longrightarrow>
      l = ''Fake Job Posting'' \<or> l = ''Real Job Posting''"
  proof
    assume h: "fst (predict ev rq w) = FlashRedirect (PredictionMessage i l) c"
    from predict_response_kinds[of ev rq w] h obtain p where "l = label_of p"
      by (auto simp: input_empty_def model_missing_def prediction_failed_def
          prediction_made_def Let_def split: if_splits)
    thus "l = ''Fake Job Posting'' \<or> l = ''Real Job Posting''"
      using label_of_two[of p] by simp
  qed
  have d: "request_text rq \<noteq> [] \<and>
    vectorizer (app_ml (load_ml ev w)) = Some vec \<and> model (app_ml (load_ml ev w)) = Some mdl \<and>
    clean_salary (Some (field rq ''salary_range'')) = Inr sal \<and>
    run_predict mdl (request_text rq) sal = Inr p \<and> commit_error ev = None \<longrightarrow>
      fst (predict ev rq w) = prediction_made rq (label_of p) \<and>
      history (snd (predict ev rq w)) =
        history w @ [\<lparr>ph_text = request_text rq, ph_prediction = label_of p,
                       ph_user_id = user_id rq\<rparr>]"
  proof (intro impI, elim conjE)
    assume h: "request_text rq \<noteq> []" "vectorizer (app_ml (load_ml ev w)) = Some vec"
      "model (app_ml (load_ml ev w)) = Some mdl"
      "clean_salary (Some (field rq ''salary_range'')) = Inr sal"
      "run_predict mdl (request_text rq) sal = Inr p" "commit_error ev = None"
    show "fst (predict ev rq w) = prediction_made rq (label_of p) \<and>
      history (snd (predict ev rq w)) =
        history w @ [\<lparr>ph_text = request_text rq, ph_prediction = label_of p,
                       ph_user_id = user_id rq\<rparr>]"
      by (simp add: predict_nonblank[OF h(1)] predict_try_run[OF h(2,3,4)] h(5,6)
          load_ml_keeps Let_def)
  qed
  from a b c d show ?thesis by blast
qed

theorem predict_label_mapping_witness:
  "fst (predict (files (Stored (answering (Inr 0))) (Stored (answering (Inr 1))))
          (posted [(''text'', ''send bank details'')] True) world0) =
     JsonPrediction ''Fake Job Posting'' \<and>
   history (snd (predict (files (Stored (answering (Inr 0))) (Stored (answering (Inr 1))))
          (posted [(''text'', ''send bank details'')] True) world0)) =
     [\<lparr>ph_text = ''send bank details'', ph_prediction = ''Fake Job Posting'', ph_user_id = 1\<rparr>]"
proof -
  let ?E = "files (Stored (answering (Inr 0))) (Stored (answering (Inr 1)))"
  let ?R = "posted [(''text'', ''send bank details'')] True"
  have t: "request_text ?R = ''send bank details''"
    by (simp add: request_text_def field_def posted_def form_get_def strip_def is_space_def)
  have h1: "request_text ?R \<noteq> []" by (simp add: t)
  have h2: "vectorizer (app_ml (load_ml ?E world0)) = Some (answering (Inr 0))"
    by (simp add: route_eval)
  have h3: "model (app_ml (load_ml ?E world0)) = Some (answering (Inr 1))"
    by (simp add: route_eval)
  have h4: "clean_salary (Some (field ?R ''salary_range'')) = Inr 0"
    by (simp add: field_def posted_def form_get_def salary_eval)
  have h5: "run_predict (answering (Inr 1)) (request_text ?R) 0 = Inr 1"
    by (simp add: answering_def)
  have h6: "commit_error ?E = None" by (simp add: files_def)
  have l: "label_of 1 = ''Fake Job Posting''" by (simp add: label_of_def)
  have m: "prediction_made ?R ''Fake Job Posting'' = JsonPrediction ''Fake Job Posting''"
    by (simp add: prediction_made_def posted_def)
  have u: "user_id ?R = 1" "history world0 = []" by (simp_all add: posted_def world0_def)
  from predict_label_mapping
         [of ?E ?R world0 "[]" CheckMark "[]" "answering (Inr 0)" "answering (Inr 1)" 0 1]
       h1 h2 h3 h4 h5 h6
  have "fst (predict ?E ?R world0) = prediction_made ?R (label_of 1) \<and>
        history (snd (predict ?E ?R world0)) =
          history world0 @ [\<lparr>ph_text = request_text ?R, ph_prediction = label_of 1,
                               ph_user_id = user_id ?R\<rparr>]"
    by blast
  thus ?thesis by (simp only: l m t u append_Nil)
qed

text \<open>
  C10. For a request that passes the blank-input check with the model and vectorizer in
  the cache: if the model's \<^verbatim>\<open>predict\<close> raises, or it answers and the database commit
  raises, the exception is caught, the answer is the prediction-failed error, and the
  stored prediction history is what it was before the request. (Building the answer after
  a successful commit is taken not to raise.)
\<close>

theorem predict_failure_caught:
  assumes "request_text rq \<noteq> []"
    and "vectorizer (app_ml (load_ml ev w)) = Some vec"
    and "model (app_ml (load_ml ev w)) = Some mdl"
    and "clean_salary (Some (field rq ''salary_range'')) = Inr sal"
    and "run_predict mdl (request_text rq) sal = Inl e \<or>
         (run_predict mdl (request_text rq) sal = Inr p \<and> commit_error ev = Some e)"
  shows "fst (predict ev rq w) = prediction_failed rq e \<and>
         history (snd (predict ev rq w)) = history w"
  using assms(5)
  by (auto simp: predict_nonblank[OF assms(1)] predict_try_run[OF assms(2,3,4)]
      load_ml_keeps Let_def)

theorem predict_failure_caught_witness:
  "fst (predict (files (Stored (answering (Inr 0)))
                       (Stored (answering (Inl (Exception ''dimension mismatch'')))))
          (posted [(''text'', ''x'')] True) world0) = JsonError ''dimension mismatch'' 500 \<and>
   history (snd (predict (files (Stored (answering (Inr 0)))
                       (Stored (answering (Inl (Exception ''dimension mismatch'')))))
          (posted [(''text'', ''x'')] True) world0)) = [] \<and>
   fst (predict ((files (Stored (answering (Inr 0))) (Stored (answering (Inr 1))))
                   \<lparr>commit_error := Some (Exception ''server has gone away'')\<rparr>)
          (posted [(''text'', ''x'')] False) world0) =
     FlashRedirect (Plain ''Prediction failed: server has gone away'') ''danger'' \<and>
   history (snd (predict ((files (Stored (answering (Inr 0))) (Stored (answering (Inr 1))))
                   \<lparr>commit_error := Some (Exception ''server has gone away'')\<rparr>)
          (posted [(''text'', ''x'')] False) world0)) = []"
proof -
  let ?M = "answering (Inl (Exception ''dimension mismatch''))"
  let ?E = "files (Stored (answering (Inr 0))) (Stored ?M)"
  let ?R = "posted [(''text'', ''x'')] True"
  let ?F = "(files (Stored (answering (Inr 0))) (Stored (answering (Inr 1))))
              \<lparr>commit_error := Some (Exception ''server has gone away'')\<rparr>"
  let ?S = "posted [(''text'', ''x'')] False"
  have t: "request_text ?R = ''x''" "request_text ?S = ''x''"
    by (simp_all add: request_text_def field_def posted_def form_get_def strip_def is_space_def)
  have h1: "request_text ?R \<noteq> []" "request_text ?S \<noteq> []" by (simp_all add: t)
  have h2: "vectorizer (app_ml (load_ml ?E world0)) = Some (answering (Inr 0))"
    "vectorizer (app_ml (load_ml ?F world0)) = Some (answering (Inr 0))"
    by (simp_all add: route_eval)
  have h3: "model (app_ml (load_ml ?E world0)) = Some ?M"
    "model (app_ml (load_ml ?F world0)) = Some (answering (Inr 1))"
    by (simp_all add: route_eval)
  have h4: "clean_salary (Some (field ?R ''salary_range'')) = Inr 0"
    "clean_salary (Some (field ?S ''salary_range'')) = Inr 0"
    by (simp_all add: field_def posted_def form_get_def salary_eval)
  have h5: "run_predict ?M (request_text ?R) 0 = Inl (Exception ''dimension mismatch'') \<or>
            (run_predict ?M (request_text ?R) 0 = Inr 0 \<and>
             commit_error ?E = Some (Exception ''dimension mismatch''))"
    by (simp add: answering_def)
  have h6: "run_predict (answering (Inr 1)) (request_text ?S) 0 =
              Inl (Exception ''server has gone away'') \<or>
            (run_predict (answering (Inr 1)) (request_text ?S) 0 = Inr 1 \<and>
             commit_error ?F = Some (Exception ''server has gone away''))"
    by (simp add: answering_def files_def)
  have f: "prediction_failed ?R (Exception ''dimension mismatch'') =
             JsonError ''dimension mismatch'' 500"
    "prediction_failed ?S (Exception ''server has gone away'') =
             FlashRedirect (Plain ''Prediction failed: server has gone away'') ''danger''"
    by (simp_all add: prediction_failed_def posted_def)
  have w: "history world0 = []" by (simp add: world0_def)
  from predict_failure_caught [OF h1(1) h2(1) h3(1) h4(1) h5]
       predict_failure_caught [OF h1(2) h2(2) h3(2) h4(2) h6]
  show ?thesis by (simp only: f w simp_thms)
qed

text \<open>
  C6, as the specification states it, fails in two ways. With no vectorizer file and a
  readable model file the prediction reports the missing model, yet the model stays in
  the cache, which is therefore not empty. And from the state so left, when the vectorizer
  file has appeared and the model file can no longer be deserialised, the failed load is
  not reported: the prediction is served from the model that is still cached.
\<close>

theorem load_failure_cache_not_empty:
  "\<not> is_stored (vec_file (files Absent (Stored (answering (Inr 0))))) \<and>
   fst (predict (files Absent (Stored (answering (Inr 0))))
          (posted [(''text'', ''x'')] True) world0) =
     JsonError ''Model files missing. Please run train.py first.'' 500 \<and>
   model (app_ml (snd (predict (files Absent (Stored (answering (Inr 0))))
          (posted [(''text'', ''x'')] True) world0))) = Some (answering (Inr 0)) \<and>
   app_ml (snd (predict (files Absent (Stored (answering (Inr 0))))
          (posted [(''text'', ''x'')] True) world0)) \<noteq> initial_ml \<and>
   \<not> is_stored (model_file (files (Stored (answering (Inr 1)))
                                 (Corrupt (Exception ''bad pickle'')))) \<and>
   fst (predict (files (Stored (answering (Inr 1))) (Corrupt (Exception ''bad pickle'')))
          (posted [(''text'', ''x'')] True)
          (snd (predict (files Absent (Stored (answering (Inr 0))))
                  (posted [(''text'', ''x'')] True) world0))) =
     JsonPrediction ''Real Job Posting''"
  by (simp add: route_eval salary_eval is_stored_def strip_def is_space_def Let_def)

text \<open>
  C6, amended. When a prediction on a non-blank request finds a cache entry (vectorizer
  or model) unset and the file of that entry is absent or cannot be deserialised, it
  answers with the model-missing error, invokes no model and stores nothing; an entry
  stays unset, while the other may hold a loaded object, and a later \<^verbatim>\<open>load_ml\<close> that
  finds both files readable loads both from storage again. An entry whose file cannot be
  loaded is left as it is, also when it is set; and whenever both entries are set after
  the load, the prediction invokes the cached model, so that a failed reload of an entry
  that is already set is not reported.
\<close>

theorem load_failure_reported_and_retried:
  "(request_text rq \<noteq> [] \<and>
    ((vectorizer (app_ml w) = None \<and> \<not> is_stored (vec_file ev)) \<or>
     (model (app_ml w) = None \<and> \<not> is_stored (model_file ev))) \<longrightarrow>
      predict ev rq w = (model_missing rq, load_ml ev w) \<and>
      (vectorizer (app_ml (load_ml ev w)) = None \<or> model (app_ml (load_ml ev w)) = None) \<and>
      history (load_ml ev w) = history w \<and> model_calls (load_ml ev w) = model_calls w \<and>
      (vec_file ev2 = Stored v2 \<and> model_file ev2 = Stored m2 \<longrightarrow>
         load_ml ev2 (load_ml ev w) =
           (load_ml ev w)
             \<lparr>app_ml := (app_ml (load_ml ev w))\<lparr>vectorizer := Some v2, model := Some m2\<rparr>,
              joblib_loads := joblib_loads (load_ml ev w) @ [VecPath, ModelPath],
              logs := logs (load_ml ev w) @ [LoadedInfo]\<rparr>)) \<and>
   (\<not> is_stored (vec_file ev) \<longrightarrow>
      vectorizer (app_ml (load_ml ev w)) = vectorizer (app_ml w)) \<and>
   (\<not> is_stored (model_file ev) \<longrightarrow> model (app_ml (load_ml ev w)) = model (app_ml w)) \<and>
   (request_text rq \<noteq> [] \<and> vectorizer (app_ml (load_ml ev w)) = Some vec \<and>
    model (app_ml (load_ml ev w)) = Some mdl \<and>
    clean_salary (Some (field rq ''salary_range'')) = Inr sal \<longrightarrow>
      model_calls (snd (predict ev rq w)) = model_calls w @ [(request_text rq, sal)])"
proof -
  have p1: "request_text rq \<noteq> [] \<and>
    ((vectorizer (app_ml w) = None \<and> \<not> is_stored (vec_file ev)) \<or>
     (model (app_ml w) = None \<and> \<not> is_stored (model_file ev))) \<longrightarrow>
      predict ev rq w = (model_missing rq, load_ml ev w) \<and>
      (vectorizer (app_ml (load_ml ev w)) = None \<or> model (app_ml (load_ml ev w)) = None) \<and>
      history (load_ml ev w) = history w \<and> model_calls (load_ml ev w) = model_calls w \<and>
      (vec_file ev2 = Stored v2 \<and> model_file ev2 = Stored m2 \<longrightarrow>
         load_ml ev2 (load_ml ev w) =
           (load_ml ev w)
             \<lparr>app_ml := (app_ml (load_ml ev w))\<lparr>vectorizer := Some v2, model := Some m2\<rparr>,
              joblib_loads := joblib_loads (load_ml ev w) @ [VecPath, ModelPath],
              logs := logs (load_ml ev w) @ [LoadedInfo]\<rparr>)"
  proof (intro impI, elim conjE)
    assume nb: "request_text rq \<noteq> []"
      and f: "(vectorizer (app_ml w) = None \<and> \<not> is_stored (vec_file ev)) \<or>
              (model (app_ml w) = None \<and> \<not> is_stored (model_file ev))"
    note s = failed_load_slot[OF f]
    have "predict ev rq w = (model_missing rq, load_ml ev w)"
      by (simp add: predict_nonblank[OF nb] predict_try_missing[OF s])
    moreover have "vec_file ev2 = Stored v2 \<and> model_file ev2 = Stored m2 \<longrightarrow>
         load_ml ev2 (load_ml ev w) =
           (load_ml ev w)
             \<lparr>app_ml := (app_ml (load_ml ev w))\<lparr>vectorizer := Some v2, model := Some m2\<rparr>,
              joblib_loads := joblib_loads (load_ml ev w) @ [VecPath, ModelPath],
              logs := logs (load_ml ev w) @ [LoadedInfo]\<rparr>"
      using load_ml_retry[OF s] by blast
    ultimately show "predict ev rq w = (model_missing rq, load_ml ev w) \<and>
      (vectorizer (app_ml (load_ml ev w)) = None \<or> model (app_ml (load_ml ev w)) = None) \<and>
      history (load_ml ev w) = history w \<and> model_calls (load_ml ev w) = model_calls w \<and>
      (vec_file ev2 = Stored v2 \<and> model_file ev2 = Stored m2 \<longrightarrow>
         load_ml ev2 (load_ml ev w) =
           (load_ml ev w)
             \<lparr>app_ml := (app_ml (load_ml ev w))\<lparr>vectorizer := Some v2, model := Some m2\<rparr>,
              joblib_loads := joblib_loads (load_ml ev w) @ [VecPath, ModelPath],
              logs := logs (load_ml ev w) @ [LoadedInfo]\<rparr>)"
      using s by (simp add: load_ml_keeps)
  qed
  have p2: "\<not> is_stored (vec_file ev) \<longrightarrow>
      vectorizer (app_ml (load_ml ev w)) = vectorizer (app_ml w)"
    using load_ml_keeps_vectorizer[of ev w] by blast
  have p3: "\<not> is_stored (model_file ev) \<longrightarrow> model (app_ml (load_ml ev w)) = model (app_ml w)"
    using load_ml_keeps_model[of ev w] by blast
  have p4: "request_text rq \<noteq> [] \<and> vectorizer (app_ml (load_ml ev w)) = Some vec \<and>
    model (app_ml (load_ml ev w)) = Some mdl \<and>
    clean_salary (Some (field rq ''salary_range'')) = Inr sal \<longrightarrow>
      model_calls (snd (predict ev rq w)) = model_calls w @ [(request_text rq, sal)]"
  proof (intro impI, elim conjE)
    assume h: "request_text rq \<noteq> []" "vectorizer (app_ml (load_ml ev w)) = Some vec"
      "model (app_ml (load_ml ev w)) = Some mdl"
      "clean_salary (Some (field rq ''salary_range'')) = Inr sal"
    show "model_calls (snd (predict ev rq w)) = model_calls w @ [(request_text rq, sal)]"
      by (simp add: predict_nonblank[OF h(1)] predict_try_run[OF h(2,3,4)] load_ml_keeps
          Let_def split: sum.splits option.splits)
  qed
  from p1 p2 p3 p4 show ?thesis by blast
qed

theorem load_failure_reported_and_retried_witness:
  "fst (predict (files Absent (Corrupt (Exception ''bad pickle'')))
          (posted [(''text'', ''x'')] False)
          (world0\<lparr>app_ml := initial_ml\<lparr>model := Some (answering (Inr 0))\<rparr>\<rparr>)) =
     FlashRedirect (Plain ''Model files missing. Please run train.py first.'') ''danger'' \<and>
   model (app_ml (load_ml (files Absent (Corrupt (Exception ''bad pickle'')))
          (world0\<lparr>app_ml := initial_ml\<lparr>model := Some (answering (Inr 0))\<rparr>\<rparr>))) =
     Some (answering (Inr 0)) \<and>
   joblib_loads (load_ml (files (Stored (answering (Inr 0))) (Stored (answering (Inr 1))))
      (snd (predict (files Absent (Corrupt (Exception ''bad pickle'')))
          (posted [(''text'', ''x'')] False)
          (world0\<lparr>app_ml := initial_ml\<lparr>model := Some (answering (Inr 0))\<rparr>\<rparr>)))) =
     [ModelPath, VecPath, ModelPath] \<and>
   model_calls (snd (predict (files (Stored (answering (Inr 1)))
                                    (Corrupt (Exception ''bad pickle'')))
          (posted [(''text'', ''x'')] False)
          (world0\<lparr>app_ml := initial_ml\<lparr>model := Some (answering (Inr 0))\<rparr>\<rparr>))) =
     [(''x'', 0)]"
proof -
  let ?E = "files Absent (Corrupt (Exception ''bad pickle''))"
  let ?F = "files (Stored (answering (Inr 1))) (Corrupt (Exception ''bad pickle''))"
  let ?G = "files (Stored (answering (Inr 0))) (Stored (answering (Inr 1)))"
  let ?R = "posted [(''text'', ''x'')] False"
  let ?W = "world0\<lparr>app_ml := initial_ml\<lparr>model := Some (answering (Inr 0))\<rparr>\<rparr>"
  have t: "request_text ?R = ''x''"
    by (simp add: request_text_def field_def posted_def form_get_def strip_def is_space_def)
  have h1: "request_text ?R \<noteq> []" by (simp add: t)
  have h2: "(vectorizer (app_ml ?W) = None \<and> \<not> is_stored (vec_file ?E)) \<or>
            (model (app_ml ?W) = None \<and> \<not> is_stored (model_file ?E))"
    by (simp add: files_def is_stored_def initial_ml_def)
  have h3: "\<not> is_stored (model_file ?E)" by (simp add: files_def is_stored_def)
  have g: "vec_file ?G = Stored (answering (Inr 0)) \<and> model_file ?G = Stored (answering (Inr 1))"
    by (simp add: files_def)
  have m: "model_missing ?R =
             FlashRedirect (Plain ''Model files missing. Please run train.py first.'') ''danger''"
    by (simp add: model_missing_def posted_def)
  have c: "model (app_ml ?W) = Some (answering (Inr 0))" "model_calls ?W = []"
    by (simp_all add: initial_ml_def world0_def)
  have j: "joblib_loads (load_ml ?E ?W) = [ModelPath]"
    by (simp add: route_eval)
  have k1: "vectorizer (app_ml (load_ml ?F ?W)) = Some (answering (Inr 1))"
    by (simp add: route_eval)
  have k2: "model (app_ml (load_ml ?F ?W)) = Some (answering (Inr 0))"
    by (simp add: route_eval)
  have k3: "clean_salary (Some (field ?R ''salary_range'')) = Inr 0"
    by (simp add: field_def posted_def form_get_def salary_eval)
  from load_failure_reported_and_retried
         [of ?R ?W ?E ?G "answering (Inr 0)" "answering (Inr 1)"] h1 h2 h3 g
  have a: "predict ?E ?R ?W = (model_missing ?R, load_ml ?E ?W) \<and>
        model (app_ml (load_ml ?E ?W)) = model (app_ml ?W) \<and>
        load_ml ?G (load_ml ?E ?W) =
          (load_ml ?E ?W)
            \<lparr>app_ml := (app_ml (load_ml ?E ?W))
                 \<lparr>vectorizer := Some (answering (Inr 0)), model := Some (answering (Inr 1))\<rparr>,
             joblib_loads := joblib_loads (load_ml ?E ?W) @ [VecPath, ModelPath],
             logs := logs (load_ml ?E ?W) @ [LoadedInfo]\<rparr>"
    by blast
  from load_failure_reported_and_retried
         [of ?R ?W ?F ?G "answering (Inr 0)" "answering (Inr 1)"
             "answering (Inr 1)" "answering (Inr 0)" 0] h1 k1 k2 k3
  have b: "model_calls (snd (predict ?F ?R ?W)) = model_calls ?W @ [(request_text ?R, 0)]"
    by blast
  from a b show ?thesis by (simp add: m j c t)
qed

text \<open>
  C1. The same posting as a training row and as a request with the discrete fields only:
  \<^verbatim>\<open>load_data\<close> builds the text from job_title, company_profile and requirements, while
  \<^verbatim>\<open>predict\<close> passes the model a text that also holds the raw salary string. The salary
  values agree.
\<close>

theorem inference_text_differs_from_training:
  "load_data_row \<lparr>col_job_title = Str ''Dev'', col_salary_range = Str ''50,000'',
                  col_company_profile = Str ''Acme'', col_requirements = Str ''Py'',
                  col_fraudulent = Num ''0'' 0\<rparr> =
     Inr (\<lparr>text_col = ''Dev Acme Py'', salary_col = Finite 50000\<rparr>, 0) \<and>
   model_calls (snd (predict (files (Stored (answering (Inr 0))) (Stored (answering (Inr 0))))
      (posted [(''job_title'', ''Dev''), (''salary_range'', ''50,000''),
               (''company_profile'', ''Acme''), (''requirements'', ''Py'')] True) world0)) =
     [(''Dev 50,000 Acme Py'', Finite 50000)]"
  by (simp add: route_eval salary_eval frame_eval Let_def)

text \<open>
  C2. A posting without a job title, as a training row and as a request: \<^verbatim>\<open>load_data\<close>
  keeps the space that joins the empty title to the next field, so its text is not the
  trimmed join that the claim states, while \<^verbatim>\<open>predict\<close>, which strips every field and
  the joined text, passes the model the trimmed text for the same posting.
\<close>

theorem row_text_not_trimmed:
  "load_data \<lparr>df_columns = expected_cols,
              df_rows = [\<lparr>col_job_title = NaN, col_salary_range = NaN,
                          col_company_profile = Str ''Acme'', col_requirements = Str ''Py'',
                          col_fraudulent = Num ''0'' 0\<rparr>]\<rparr> =
     Inr [(\<lparr>text_col = '' Acme Py'', salary_col = Finite 0\<rparr>, 0)] \<and>
   strip (join '' '' [[], ''Acme'', ''Py'']) = ''Acme Py'' \<and>
   model_calls (snd (predict (files (Stored (answering (Inr 0))) (Stored (answering (Inr 0))))
      (posted [(''company_profile'', ''Acme''), (''requirements'', ''Py'')] True) world0)) =
     [(''Acme Py'', Finite 0)]"
  by (simp add: route_eval salary_eval frame_eval Let_def)

end
